theory Spec2Isabelle
  imports Main
begin

section \<open>Python primitives used by Assembler.py\<close>

text \<open>
  Strings are lists of 8-bit characters (code points 0..255).  The helpers below follow
  the Python built-ins that the assembler calls: \<open>str.strip\<close>, \<open>str.split(sep)\<close>,
  \<open>str.startswith\<close>, \<open>int(str)\<close>, \<open>str(int)\<close> and the format \<open>f"{n:b}"\<close>.
\<close>

definition py_isspace :: "char \<Rightarrow> bool" where
  \<comment> \<open>the characters below code point 256 that \<open>str.strip()\<close> and \<open>str.split()\<close> skip\<close>
  "py_isspace c = (c \<in> set [CHR 0x09, CHR 0x0A, CHR 0x0B, CHR 0x0C, CHR 0x0D,
                              CHR 0x1C, CHR 0x1D, CHR 0x1E, CHR 0x1F, CHR 0x20,
                              CHR 0x85, CHR 0xA0])"

definition py_strip :: "string \<Rightarrow> string" where
  "py_strip s = rev (dropWhile py_isspace (rev (dropWhile py_isspace s)))"

definition startswith :: "string \<Rightarrow> string \<Rightarrow> bool" where
  "startswith s p = (take (length p) s = p)"

text \<open>
  \<open>s.split(sep)\<close> for a non-empty separator \<open>sep = c # cs\<close>: the pieces between the
  non-overlapping occurrences of the separator, scanned from the left.  The second argument
  holds the current piece, reversed.
\<close>

fun split_from :: "char \<Rightarrow> string \<Rightarrow> string \<Rightarrow> string \<Rightarrow> string list" where
  "split_from c cs acc [] = [rev acc]"
| "split_from c cs acc (x # xs) =
     (if x = c \<and> take (length cs) xs = cs
      then rev acc # split_from c cs [] (drop (length cs) xs)
      else split_from c cs (x # acc) xs)"

definition py_split :: "string \<Rightarrow> string \<Rightarrow> string list" where
  \<comment> \<open>the source only splits on non-empty literals; Python raises on an empty separator\<close>
  "py_split sep s = (case sep of [] \<Rightarrow> [] | c # cs \<Rightarrow> split_from c cs [] s)"

definition digit_chars :: string where
  "digit_chars = ''0123456789''"

definition is_digit :: "char \<Rightarrow> bool" where
  "is_digit c = (c \<in> set digit_chars)"

fun index_of :: "'a \<Rightarrow> 'a list \<Rightarrow> nat" where
  "index_of c [] = 0"
| "index_of c (x # xs) = (if x = c then 0 else 1 + index_of c xs)"

definition digit_val :: "char \<Rightarrow> nat" where
  \<comment> \<open>the value of a decimal digit: its position in \<open>digit_chars\<close>\<close>
  "digit_val c = index_of c digit_chars"

text \<open>
  The digit part of an integer literal accepted by \<open>int()\<close>: decimal digits, with single
  underscores allowed between two digits, and at most \<open>MAX_STR_DIGITS\<close> digits.
\<close>

fun digits_ok :: "string \<Rightarrow> bool" where
  "digits_ok [] = False"
| "digits_ok [c] = is_digit c"
| "digits_ok (c # d # r) =
     (is_digit c \<and> (if d = CHR ''_'' then digits_ok r else digits_ok (d # r)))"

definition digits_value :: "string \<Rightarrow> nat" where
  "digits_value s = foldl (\<lambda>acc c. 10 * acc + digit_val c) 0 (filter is_digit s)"

definition MAX_STR_DIGITS :: nat where
  \<comment> \<open>the interpreter's default limit on the digits of an integer literal\<close>
  "MAX_STR_DIGITS = 4300"

definition parse_digits :: "string \<Rightarrow> int option" where
  "parse_digits s =
     (if digits_ok s \<and> length (filter is_digit s) \<le> MAX_STR_DIGITS
      then Some (int (digits_value s)) else None)"

definition int_isspace :: "char \<Rightarrow> bool" where
  \<comment> \<open>the characters below code point 256 that \<open>int()\<close> skips around a literal; unlike
      \<open>str.strip()\<close> it does not skip the separators U+001C to U+001F\<close>
  "int_isspace c = (c \<in> set [CHR 0x09, CHR 0x0A, CHR 0x0B, CHR 0x0C, CHR 0x0D, CHR 0x20,
                               CHR 0x85, CHR 0xA0])"

definition int_strip :: "string \<Rightarrow> string" where
  "int_strip s = rev (dropWhile int_isspace (rev (dropWhile int_isspace s)))"

definition py_int :: "string \<Rightarrow> int option" where
  \<comment> \<open>\<open>int(s)\<close>; \<open>None\<close> stands for the \<open>ValueError\<close>\<close>
  "py_int s =
     (case int_strip s of
        [] \<Rightarrow> None
      | c # r \<Rightarrow>
          if c = CHR ''-'' then map_option uminus (parse_digits r)
          else if c = CHR ''+'' then parse_digits r
          else parse_digits (c # r))"

fun dec_digits :: "nat \<Rightarrow> string" where
  "dec_digits n =
     (if n < 10 then [digit_chars ! n] else dec_digits (n div 10) @ [digit_chars ! (n mod 10)])"

declare dec_digits.simps [simp del]

definition py_str :: "int \<Rightarrow> string" where
  \<comment> \<open>\<open>str(n)\<close> and \<open>f"{n}"\<close> for an integer\<close>
  "py_str n = (if n < 0 then CHR ''-'' # dec_digits (nat (- n)) else dec_digits (nat n))"

fun bin_digits :: "nat \<Rightarrow> string" where
  "bin_digits n =
     (if n < 2 then [''01'' ! n] else bin_digits (n div 2) @ [''01'' ! (n mod 2)])"

declare bin_digits.simps [simp del]

definition format_b :: "int \<Rightarrow> string" where
  \<comment> \<open>\<open>f"{n:b}"\<close>\<close>
  "format_b n = (if n < 0 then CHR ''-'' # bin_digits (nat (- n)) else bin_digits (nat n))"

definition str_times :: "int \<Rightarrow> string \<Rightarrow> string" where
  \<comment> \<open>\<open>k * s\<close>: the empty string when \<open>k\<close> is not positive\<close>
  "str_times k s = concat (replicate (nat k) s)"

section \<open>SymbolTable\<close>

text \<open>
  \<open>get_value\<close> returns the stored integer, or the boolean \<open>False\<close> when the symbol is
  absent.  Its callers test the result in two different ways: by truth value
  (\<open>not v\<close>) and by identity (\<open>v is False\<close>).
\<close>

datatype pyval = PyInt int | PyFalse

fun py_not :: "pyval \<Rightarrow> bool" where
  "py_not PyFalse = True"
| "py_not (PyInt n) = (n = 0)"

fun is_False :: "pyval \<Rightarrow> bool" where
  "is_False PyFalse = True"
| "is_False (PyInt n) = False"

type_synonym symbol_table = "string \<rightharpoonup> int"

definition store_symbol :: "symbol_table \<Rightarrow> string \<Rightarrow> int \<Rightarrow> symbol_table" where
  "store_symbol table symbol address = table(symbol \<mapsto> address)"

definition get_value :: "symbol_table \<Rightarrow> string \<Rightarrow> pyval" where
  "get_value table symbol = (case table symbol of Some v \<Rightarrow> PyInt v | None \<Rightarrow> PyFalse)"

definition get_defaults :: symbol_table where
  "get_defaults =
     fold (\<lambda>i table. table(CHR ''R'' # py_str (int i) \<mapsto> int i)) [0..<16]
       (Map.empty(''SP'' \<mapsto> 0, ''LCL'' \<mapsto> 1, ''ARG'' \<mapsto> 2, ''THIS'' \<mapsto> 3, ''THAT'' \<mapsto> 4,
                  ''SCREEN'' \<mapsto> 16384, ''KBD'' \<mapsto> 24576))"

section \<open>Reader: the first pass\<close>

record reader =
  program_code :: "string list"
  line_counter :: int
  r_symbol_table :: symbol_table

definition new_reader :: reader where
  "new_reader = \<lparr>program_code = [], line_counter = - 1, r_symbol_table = get_defaults\<rparr>"

definition label_name_of :: "string \<Rightarrow> string" where
  \<comment> \<open>\<open>code_piece[1:-1]\<close>\<close>
  "label_name_of code_piece = butlast (tl code_piece)"

text \<open>
  \<open>check_if_label\<close> returns \<open>False\<close> (here \<open>None\<close>) for a label line, after possibly
  storing the label, and the line itself otherwise.
\<close>

definition check_if_label :: "symbol_table \<Rightarrow> string \<Rightarrow> int \<Rightarrow> string option \<times> symbol_table" where
  "check_if_label table code_piece counter =
     (if startswith code_piece ''(''
      then (let label_name = label_name_of code_piece
            in if py_not (get_value table label_name)
               then (None, store_symbol table label_name (counter + 1))
               else (None, table))
      else (Some code_piece, table))"

definition line_part_of :: "string \<Rightarrow> string" where
  \<comment> \<open>\<open>line.strip().split("//")[0].strip()\<close>\<close>
  "line_part_of line = py_strip (hd (py_split ''//'' (py_strip line)))"

definition read_line :: "string \<Rightarrow> reader \<Rightarrow> reader" where
  "read_line line r =
     (let line_part = line_part_of line
      in if length line_part > 0
         then (case check_if_label (r_symbol_table r) line_part (line_counter r) of
                 (Some code_piece, table) \<Rightarrow>
                   if code_piece \<noteq> []
                   then r\<lparr>program_code := program_code r @ [code_piece],
                          line_counter := line_counter r + 1,
                          r_symbol_table := table\<rparr>
                   else r\<lparr>r_symbol_table := table\<rparr>
               | (None, table) \<Rightarrow> r\<lparr>r_symbol_table := table\<rparr>)
         else r)"

fun read_lines :: "string list \<Rightarrow> reader \<Rightarrow> reader" where
  "read_lines [] r = r"
| "read_lines (line # rest) r = read_lines rest (read_line line r)"

definition read_source :: "string list \<Rightarrow> string list \<times> symbol_table" where
  "read_source infile = (let r = read_lines infile new_reader in (program_code r, r_symbol_table r))"

section \<open>Translator: the second pass\<close>

datatype error =
    SysExit int           \<comment> \<open>\<open>sys.exit(n)\<close>\<close>
  | KeyError string       \<comment> \<open>a dictionary lookup that misses; never caught\<close>
  | IndexError            \<comment> \<open>a list index out of range; never caught\<close>
  | UnboundLocalError string  \<comment> \<open>a local variable read before any assignment\<close>

definition py_index :: "'a list \<Rightarrow> nat \<Rightarrow> error + 'a" where
  \<comment> \<open>\<open>xs[i]\<close> for a non-negative index\<close>
  "py_index xs i = (if i < length xs then Inr (xs ! i) else Inl IndexError)"

type_synonym c_map = "string \<rightharpoonup> (string \<rightharpoonup> string)"

definition A_INSTRUCTION_LENGTH :: int where "A_INSTRUCTION_LENGTH = 15"
definition A_SIZE :: int where "A_SIZE = 2 ^ 15 - 1"
definition A_OP_CODE :: int where "A_OP_CODE = 0"
definition C_OP_CODE :: int where "C_OP_CODE = 1"
definition C_FILLER :: int where "C_FILLER = 11"
definition C_FIELDS :: "string list" where "C_FIELDS = [''comp'', ''dest'', ''jmp'']"

record translator =
  next_free_mem :: int
  c_instruction_map :: c_map
  code :: "string list"
  t_symbol_table :: symbol_table

subsection \<open>Loading the mnemonic table\<close>

fun find_from :: "string \<Rightarrow> string \<Rightarrow> nat \<Rightarrow> int" where
  "find_from sub [] i = (if sub = [] then int i else - 1)"
| "find_from sub (x # xs) i =
     (if take (length sub) (x # xs) = sub then int i else find_from sub xs (Suc i))"

definition py_find :: "string \<Rightarrow> string \<Rightarrow> int" where
  \<comment> \<open>\<open>s.find(sub)\<close>: the first index of \<open>sub\<close> in \<open>s\<close>, or \<open>-1\<close>\<close>
  "py_find s sub = find_from sub s 0"

definition field_tag :: "string \<Rightarrow> string" where
  \<comment> \<open>\<open>f"<{field}>"\<close>\<close>
  "field_tag field = ''<'' @ field @ ''>''"

definition setup_field :: "string \<Rightarrow> string \<Rightarrow> c_map \<Rightarrow> error + c_map" where
  "setup_field line field cm =
     (if py_find line (field_tag field) > 0
      then (let line_parts = py_split (field_tag field) (py_strip line)
            in case py_index line_parts 0 of
                 Inl e \<Rightarrow> Inl e
               | Inr p0 \<Rightarrow>
                   (case py_index line_parts 1 of
                      Inl e \<Rightarrow> Inl e
                    | Inr p1 \<Rightarrow>
                        (let key = py_strip p0;
                             code0 = py_strip p1;
                             code1 = filter (\<lambda>c. \<not> py_isspace c) code0
                         in case cm field of
                              None \<Rightarrow> Inl (KeyError field)
                            | Some d \<Rightarrow> Inr (cm(field \<mapsto> d(key \<mapsto> code1))))))
      else Inr cm)"

fun setup_fields :: "string \<Rightarrow> string list \<Rightarrow> c_map \<Rightarrow> error + c_map" where
  "setup_fields line [] cm = Inr cm"
| "setup_fields line (field # rest) cm =
     (case setup_field line field cm of
        Inl e \<Rightarrow> Inl e
      | Inr cm' \<Rightarrow> setup_fields line rest cm')"

fun setup_lines :: "string list \<Rightarrow> c_map \<Rightarrow> error + c_map" where
  "setup_lines [] cm = Inr cm"
| "setup_lines (line # rest) cm =
     (case setup_fields line C_FIELDS cm of
        Inl e \<Rightarrow> Inl e
      | Inr cm' \<Rightarrow> setup_lines rest cm')"

definition setup_c_map :: "string list \<Rightarrow> error + c_map" where
  \<comment> \<open>the argument is the text of the file \<open>c_instruction_map\<close>, line by line\<close>
  "setup_c_map infile =
     setup_lines infile
       (Map.empty(''comp'' \<mapsto> Map.empty, ''dest'' \<mapsto> Map.empty, ''jmp'' \<mapsto> Map.empty))"

definition new_translator :: "c_map \<Rightarrow> string list \<Rightarrow> symbol_table \<Rightarrow> translator" where
  "new_translator cm source_code table =
     \<lparr>next_free_mem = 16, c_instruction_map = cm, code = source_code, t_symbol_table = table\<rparr>"

subsection \<open>A-instructions\<close>

definition handle_bad_address :: "pyval \<Rightarrow> error + unit" where
  "handle_bad_address address = (if is_False address then Inl (SysExit 3) else Inr ())"

definition convert_a_instruction :: "translator \<Rightarrow> int \<Rightarrow> error + string" where
  "convert_a_instruction t address =
     (let address' = (if address > A_SIZE
                      then get_value (t_symbol_table t) (py_str address)
                      else PyInt address)
      in case handle_bad_address address' of
           Inl e \<Rightarrow> Inl e
         | Inr _ \<Rightarrow>
            (case address' of
               PyInt a \<Rightarrow>
                 (let addr = format_b a;
                      zeros_to_fill = A_INSTRUCTION_LENGTH - int (length addr)
                  in Inr (py_str A_OP_CODE @ str_times zeros_to_fill ''0'' @ addr))
             | PyFalse \<Rightarrow> Inl (SysExit 3)))"

definition allocate_address_if_needed :: "translator \<Rightarrow> string \<Rightarrow> int \<times> translator" where
  "allocate_address_if_needed t address_key =
     (let address = get_value (t_symbol_table t) address_key
      in if is_False address
         then (next_free_mem t,
               t\<lparr>t_symbol_table := store_symbol (t_symbol_table t) address_key (next_free_mem t),
                 next_free_mem := next_free_mem t + 1\<rparr>)
         else (case address of PyInt a \<Rightarrow> (a, t) | PyFalse \<Rightarrow> (next_free_mem t, t)))"

definition process_a_instruction :: "translator \<Rightarrow> string \<Rightarrow> error + (string \<times> translator)" where
  "process_a_instruction t code_piece =
     (let address_key = tl code_piece
      in case py_int address_key of
           Some address \<Rightarrow>
             (case convert_a_instruction t address of
                Inl e \<Rightarrow> Inl e
              | Inr instr \<Rightarrow> Inr (instr, t))
         | None \<Rightarrow>
             (case allocate_address_if_needed t address_key of
                (address, t') \<Rightarrow>
                  (case convert_a_instruction t' address of
                     Inl e \<Rightarrow> Inl e
                   | Inr instr \<Rightarrow> Inr (instr, t'))))"

subsection \<open>C-instructions\<close>

fun convert_fields :: "c_map \<Rightarrow> (string \<times> string) list \<Rightarrow> string \<Rightarrow> error + string" where
  "convert_fields cm [] instruction = Inr instruction"
| "convert_fields cm ((field, field_v) # rest) instruction =
     (case cm field of
        None \<Rightarrow> Inl (KeyError field)
      | Some d \<Rightarrow>
          (case d field_v of
             None \<Rightarrow> Inl (KeyError field_v)
           | Some bits \<Rightarrow> convert_fields cm rest (instruction @ bits)))"

definition convert_c_instruction :: "translator \<Rightarrow> string \<Rightarrow> string \<Rightarrow> string \<Rightarrow> error + string" where
  "convert_c_instruction t comp' dest jmp =
     convert_fields (c_instruction_map t) (zip C_FIELDS [comp', dest, jmp])
       (py_str C_OP_CODE @ py_str C_FILLER)"

definition process_c_instruction :: "translator \<Rightarrow> string \<Rightarrow> error + string" where
  "process_c_instruction t code_piece =
     (if CHR ''='' \<in> set code_piece
      then (case py_index (py_split ''='' code_piece) 0 of
              Inl e \<Rightarrow> Inl e
            | Inr dest \<Rightarrow>
                (case py_index (py_split ''='' code_piece) 1 of
                   Inl e \<Rightarrow> Inl e
                 | Inr comp' \<Rightarrow> convert_c_instruction t comp' dest ''null''))
      else if CHR '';'' \<in> set code_piece
      then (case py_index (py_split '';'' code_piece) 0 of
              Inl e \<Rightarrow> Inl e
            | Inr comp' \<Rightarrow>
                (case py_index (py_split '';'' code_piece) 1 of
                   Inl e \<Rightarrow> Inl e
                 | Inr jmp \<Rightarrow> convert_c_instruction t comp' ''null'' jmp))
      else Inl (UnboundLocalError ''instruction''))"

subsection \<open>The translation loop\<close>

text \<open>
  \<open>translate\<close> writes one line per instruction.  The model returns the lines written (without
  the line terminator) together with the translator's final state; an exception or a
  \<open>sys.exit\<close> inside the loop ends it at once.
\<close>

fun translate_loop :: "string list \<Rightarrow> translator \<Rightarrow> string list \<Rightarrow> error + (string list \<times> translator)" where
  "translate_loop [] t outfile = Inr (outfile, t)"
| "translate_loop (assembly_code # rest) t outfile =
     (if startswith assembly_code ''@''
      then (case process_a_instruction t assembly_code of
              Inl e \<Rightarrow> Inl e
            | Inr (instr, t') \<Rightarrow> translate_loop rest t' (outfile @ [instr]))
      else (case process_c_instruction t assembly_code of
              Inl e \<Rightarrow> Inl e
            | Inr instr \<Rightarrow> translate_loop rest t (outfile @ [instr])))"

definition translate :: "translator \<Rightarrow> error + (string list \<times> translator)" where
  "translate t = translate_loop (code t) t []"

section \<open>The command line\<close>

text \<open>
  A \<open>pathlib.Path\<close> as the program observes it: whether it exists, is a file or a
  directory, its suffix, the lines read from it, and the result of \<open>glob("*.asm")\<close>.
\<close>

datatype path =
  Path (p_exists: bool) (is_file: bool) (is_dir: bool) (suffix: string)
       (p_lines: "string list") (glob_asm: "path list")

definition is_asm_input :: "path \<Rightarrow> error + bool" where
  "is_asm_input input_file = (if suffix input_file \<noteq> ''.asm'' then Inl (SysExit 3) else Inr True)"

definition translate_assembly_to_hack :: "string list \<Rightarrow> path \<Rightarrow> error + string list" where
  \<comment> \<open>the first argument is the text of the file \<open>c_instruction_map\<close>\<close>
  "translate_assembly_to_hack c_map_file source_path =
     (case read_source (p_lines source_path) of
        (source_code, table) \<Rightarrow>
          (case setup_c_map c_map_file of
             Inl e \<Rightarrow> Inl e
           | Inr cm \<Rightarrow>
               (case translate (new_translator cm source_code table) of
                  Inl e \<Rightarrow> Inl e
                | Inr (outfile, t) \<Rightarrow> Inr outfile)))"

fun translate_each :: "string list \<Rightarrow> path list \<Rightarrow> string list list \<Rightarrow> error + string list list" where
  "translate_each c_map_file [] written = Inr written"
| "translate_each c_map_file (file_obj # rest) written =
     (case translate_assembly_to_hack c_map_file file_obj of
        Inl e \<Rightarrow> Inl e
      | Inr outfile \<Rightarrow> translate_each c_map_file rest (written @ [outfile]))"

definition main_dir :: "string list \<Rightarrow> path \<Rightarrow> error + string list list" where
  "main_dir c_map_file source_path =
     (if is_dir source_path then translate_each c_map_file (glob_asm source_path) [] else Inr [])"

definition main :: "string list \<Rightarrow> path \<Rightarrow> error + string list list" where
  "main c_map_file source_path =
     (if is_file source_path
      then (case is_asm_input source_path of
              Inl e \<Rightarrow> Inl e
            | Inr ok \<Rightarrow>
                if ok
                then (case translate_assembly_to_hack c_map_file source_path of
                        Inl e \<Rightarrow> Inl e
                      | Inr outfile \<Rightarrow> Inr [outfile])
                else main_dir c_map_file source_path)
      else main_dir c_map_file source_path)"

definition script :: "string list \<Rightarrow> (string \<Rightarrow> path) \<Rightarrow> string list \<Rightarrow> error + string list list" where
  \<comment> \<open>the \<open>__main__\<close> block: \<open>argv\<close> is \<open>sys.argv\<close>, \<open>fs\<close> resolves a path name\<close>
  "script argv fs c_map_file =
     (case py_index argv 1 of
        Inl e \<Rightarrow> Inl (SysExit 3)
      | Inr name \<Rightarrow>
          (let input_path = fs name
           in if \<not> p_exists input_path then Inl (SysExit 3)
              else main c_map_file input_path))"


section \<open>Notions used in the statements\<close>

text \<open>
  The number a string of binary digits denotes, and the test that a string consists of
  binary digits only.
\<close>

definition bits_value :: "string \<Rightarrow> nat" where
  "bits_value w = foldl (\<lambda>acc c. 2 * acc + (if c = CHR ''1'' then 1 else 0)) 0 w"

definition is_bits :: "string \<Rightarrow> bool" where
  "is_bits w = list_all (\<lambda>c. c = CHR ''0'' \<or> c = CHR ''1'') w"

text \<open>
  The word that lines 116--118 of \<open>_convert_a_instruction\<close> build from an integer address.
\<close>

definition a_word :: "int \<Rightarrow> string" where
  "a_word a =
     py_str A_OP_CODE
       @ str_times (A_INSTRUCTION_LENGTH - int (length (format_b a))) ''0'' @ format_b a"

text \<open>
  The kinds of source line that \<open>read_source\<close> distinguishes, after the comment and the
  surrounding blanks are removed: a label line starts with an opening parenthesis, any
  other non-empty line is an instruction.
\<close>

definition is_label_line :: "string \<Rightarrow> bool" where
  "is_label_line line = (line_part_of line \<noteq> [] \<and> startswith (line_part_of line) ''('')"

definition is_instruction_line :: "string \<Rightarrow> bool" where
  "is_instruction_line line = (line_part_of line \<noteq> [] \<and> \<not> startswith (line_part_of line) ''('')"

definition defines_label :: "string \<Rightarrow> string \<Rightarrow> bool" where
  "defines_label line name = (is_label_line line \<and> label_name_of (line_part_of line) = name)"

text \<open>
  The sequence of calls of \<open>_allocate_address_if_needed\<close> that one encoding pass makes, one
  per symbolic reference; \<open>symbol_refs\<close> lists the symbolic references of a program in
  order.  \<open>new_names\<close> lists the names that are not in the table, each once, in the order
  of their first reference.
\<close>

fun allocate_all :: "translator \<Rightarrow> string list \<Rightarrow> int list \<times> translator" where
  "allocate_all t [] = ([], t)"
| "allocate_all t (k # ks) =
     (case allocate_address_if_needed t k of
        (a, t') \<Rightarrow> (case allocate_all t' ks of (as, t'') \<Rightarrow> (a # as, t'')))"

fun first_refs :: "string list \<Rightarrow> string list" where
  "first_refs [] = []"
| "first_refs (k # ks) = k # first_refs (filter (\<lambda>x. x \<noteq> k) ks)"

definition new_names :: "symbol_table \<Rightarrow> string list \<Rightarrow> string list" where
  "new_names table ks = first_refs (filter (\<lambda>k. table k = None) ks)"

definition symbol_refs :: "string list \<Rightarrow> string list" where
  "symbol_refs src = map tl (filter (\<lambda>l. startswith l ''@'' \<and> py_int (tl l) = None) src)"

text \<open>
  The bits that the mnemonic table holds for a mnemonic of a field:
  \<open>c_instruction_map[field][key]\<close>, with \<open>None\<close> when either lookup misses.
\<close>

definition c_lookup :: "c_map \<Rightarrow> string \<Rightarrow> string \<Rightarrow> string option" where
  "c_lookup cm field key = (case cm field of None \<Rightarrow> None | Some d \<Rightarrow> d key)"

definition has_code :: "c_map \<Rightarrow> string \<Rightarrow> string \<Rightarrow> nat \<Rightarrow> bool" where
  "has_code cm field key n =
     (case c_lookup cm field key of None \<Rightarrow> False | Some bits \<Rightarrow> length bits = n \<and> is_bits bits)"

text \<open>The six-line program of the end-to-end example.\<close>

definition six_lines :: "string list" where
  "six_lines = [''@2'', ''D=A'', ''@3'', ''D=D+A'', ''@0'', ''M=D'']"

text \<open>
  The file \<open>c_instruction_map\<close> is not part of the sources.  The lines below are a table in
  the format that \<open>_setup_c_map\<close> reads, with the Hack encodings of a few mnemonics;
  \<open>sample_c_map\<close> is the dictionary that \<open>_setup_c_map\<close> builds from them.
\<close>

definition sample_c_map_file :: "string list" where
  "sample_c_map_file =
     [''A <comp> 0 110000'', ''D <comp> 0 001100'', ''D+A <comp> 0 000010'',
      ''null <dest> 000'', ''M <dest> 001'', ''D <dest> 010'',
      ''null <jmp> 000'', ''JGT <jmp> 001'']"

definition sample_c_map :: c_map where
  "sample_c_map =
     Map.empty(''comp'' \<mapsto> Map.empty(''A'' \<mapsto> ''0110000'', ''D'' \<mapsto> ''0001100'', ''D+A'' \<mapsto> ''0000010''),
               ''dest'' \<mapsto> Map.empty(''null'' \<mapsto> ''000'', ''M'' \<mapsto> ''001'', ''D'' \<mapsto> ''010''),
               ''jmp'' \<mapsto> Map.empty(''null'' \<mapsto> ''000'', ''JGT'' \<mapsto> ''001''))"

text \<open>
  A program of 32768 instructions followed by the label \<open>(32768)\<close> and a reference to it.
\<close>

definition over_range_program :: "string list" where
  "over_range_program = replicate 32768 ''@0'' @ [''(32768)'', ''@32768'']"


definition missing_input :: path where
  "missing_input = Path False False False ''.asm'' [] []"



definition fs_of :: "path \<Rightarrow> string \<Rightarrow> path" where
  "fs_of p name = p"


section \<open>Basic facts\<close>

lemma get_defaults_unfold:
  "get_defaults =
     Map.empty(''SP'' \<mapsto> 0, ''LCL'' \<mapsto> 1, ''ARG'' \<mapsto> 2, ''THIS'' \<mapsto> 3, ''THAT'' \<mapsto> 4,
               ''SCREEN'' \<mapsto> 16384, ''KBD'' \<mapsto> 24576,
               ''R0'' \<mapsto> 0, ''R1'' \<mapsto> 1, ''R2'' \<mapsto> 2, ''R3'' \<mapsto> 3, ''R4'' \<mapsto> 4, ''R5'' \<mapsto> 5,
               ''R6'' \<mapsto> 6, ''R7'' \<mapsto> 7, ''R8'' \<mapsto> 8, ''R9'' \<mapsto> 9, ''R10'' \<mapsto> 10,
               ''R11'' \<mapsto> 11, ''R12'' \<mapsto> 12, ''R13'' \<mapsto> 13, ''R14'' \<mapsto> 14, ''R15'' \<mapsto> 15)"
proof -
  have upt16: "[0..<16] = [0, 1, 2, 3, 4, 5, 6, 7, 8, 9, 10, 11, 12, 13, 14, 15::nat]"
    by (simp add: upt_rec)
  show ?thesis
    unfolding get_defaults_def upt16
    by (simp add: py_str_def dec_digits.simps digit_chars_def)
qed

lemmas py_int_eval = py_int_def int_strip_def int_isspace_def parse_digits_def digits_value_def
  MAX_STR_DIGITS_def
  is_digit_def digit_chars_def digit_val_def

lemma bin_digits_small: "n < 2 \<Longrightarrow> bin_digits n = [''01'' ! n]"
  by (subst bin_digits.simps) simp

lemma bin_digits_big: "\<not> n < 2 \<Longrightarrow> bin_digits n = bin_digits (n div 2) @ [''01'' ! (n mod 2)]"
  by (subst bin_digits.simps) simp

lemma bit_char_cases: "n < 2 \<Longrightarrow> ''01'' ! n = (if n = 0 then CHR ''0'' else CHR ''1'')"
proof -
  assume "n < 2"
  then have "n = 0 \<or> n = Suc 0" by arith
  then show ?thesis by auto
qed

lemma bin_digits_is_bits: "is_bits (bin_digits n)"
proof (induction n rule: bin_digits.induct)
  case (1 n)
  show ?case
  proof (cases "n < 2")
    case True
    then show ?thesis by (simp add: bin_digits_small bit_char_cases is_bits_def)
  next
    case False
    have "n mod 2 < 2" by simp
    then have "is_bits [''01'' ! (n mod 2)]" by (simp add: bit_char_cases is_bits_def)
    moreover from False 1 have "is_bits (bin_digits (n div 2))" by simp
    ultimately show ?thesis using False by (simp add: bin_digits_big is_bits_def)
  qed
qed

lemma bits_value_snoc: "bits_value (w @ [c]) = 2 * bits_value w + (if c = CHR ''1'' then 1 else 0)"
  by (simp add: bits_value_def)

lemma bits_value_bin_digits: "bits_value (bin_digits n) = n"
proof (induction n rule: bin_digits.induct)
  case (1 n)
  show ?case
  proof (cases "n < 2")
    case True
    then show ?thesis by (simp add: bin_digits_small bit_char_cases bits_value_def)
  next
    case False
    have m: "n mod 2 < 2" by simp
    from False 1 have "bits_value (bin_digits (n div 2)) = n div 2" by simp
    then have "bits_value (bin_digits n) = 2 * (n div 2) + (if n mod 2 = 0 then 0 else 1)"
      using False by (simp add: bin_digits_big bits_value_snoc bit_char_cases [OF m])
    also have "\<dots> = n" by presburger
    finally show ?thesis .
  qed
qed

lemma bin_digits_nonempty: "0 < length (bin_digits n)"
  by (cases "n < 2") (simp_all add: bin_digits_small bin_digits_big)

lemma bin_digits_length: "0 < k \<Longrightarrow> length (bin_digits n) \<le> k \<longleftrightarrow> n < 2 ^ k"
proof (induction n arbitrary: k rule: bin_digits.induct)
  case (1 n)
  show ?case
  proof (cases "n < 2")
    case True
    have "(2::nat) ^ 1 \<le> 2 ^ k" using 1(2) by (intro power_increasing) auto
    with True have "n < 2 ^ k" by simp
    with True 1(2) show ?thesis by (simp add: bin_digits_small)
  next
    case False
    show ?thesis
    proof (cases "k = 1")
      case True
      with False bin_digits_nonempty [of "n div 2"] show ?thesis
        by (simp add: bin_digits_big)
    next
      case k1: False
      with 1(2) obtain j where j: "k = Suc j" "0 < j" by (cases k) auto
      from 1(1) [OF False j(2)] have "length (bin_digits (n div 2)) \<le> j \<longleftrightarrow> n div 2 < 2 ^ j" .
      moreover have "n div 2 < 2 ^ j \<longleftrightarrow> n < 2 ^ Suc j" by auto
      ultimately show ?thesis using False j by (simp add: bin_digits_big)
    qed
  qed
qed

lemma str_times_zero: "str_times k ''0'' = replicate (nat k) CHR ''0''"
  by (induction "nat k" arbitrary: k) (auto simp: str_times_def replicate_append_same)


lemma py_str_A_OP_CODE: "py_str A_OP_CODE = ''0''"
  by (simp add: py_str_def A_OP_CODE_def dec_digits.simps digit_chars_def)

lemma a_word_nonneg:
  "0 \<le> a \<Longrightarrow>
   a_word a = CHR ''0'' # replicate (15 - length (bin_digits (nat a))) CHR ''0'' @ bin_digits (nat a)"
  by (simp add: a_word_def py_str_A_OP_CODE str_times_zero format_b_def A_INSTRUCTION_LENGTH_def
      nat_diff_distrib')

lemma is_bits_Cons: "is_bits (c # w) \<longleftrightarrow> (c = CHR ''0'' \<or> c = CHR ''1'') \<and> is_bits w"
  by (simp add: is_bits_def)

lemma is_bits_append: "is_bits (u @ v) \<longleftrightarrow> is_bits u \<and> is_bits v"
  by (simp add: is_bits_def)

lemma is_bits_replicate: "is_bits (replicate k CHR ''0'')"
  by (induction k) (simp_all add: is_bits_def)

lemma a_word_in_range:
  assumes "0 \<le> a" "a \<le> A_SIZE"
  shows "length (a_word a) = 16" and "is_bits (a_word a)" and "hd (a_word a) = CHR ''0''"
    and "bits_value (a_word a) = nat a"
proof -
  have "nat a < 2 ^ 15" using assms by (simp add: A_SIZE_def)
  then have len: "length (bin_digits (nat a)) \<le> 15" by (simp add: bin_digits_length)
  show "length (a_word a) = 16" using len assms(1) by (simp add: a_word_nonneg)
  show "is_bits (a_word a)"
    by (simp only: a_word_nonneg [OF assms(1)] is_bits_Cons is_bits_append is_bits_replicate
        bin_digits_is_bits simp_thms)
  show "hd (a_word a) = CHR ''0''" using assms(1) by (simp add: a_word_nonneg)
  have z: "bits_value (replicate k CHR ''0'' @ w) = bits_value w" for k w
    by (induction k) (simp_all add: bits_value_def)
  have "bits_value (CHR ''0'' # replicate k CHR ''0'' @ w) = bits_value w" for k w
    using z [of "Suc k" w] by simp
  then show "bits_value (a_word a) = nat a"
    using assms(1) by (simp add: a_word_nonneg bits_value_bin_digits)
qed

lemma convert_a_instruction_eq:
  "convert_a_instruction t address =
     (if address > A_SIZE
      then (case t_symbol_table t (py_str address) of
              None \<Rightarrow> Inl (SysExit 3)
            | Some v \<Rightarrow> Inr (a_word v))
      else Inr (a_word address))"
  by (simp add: convert_a_instruction_def get_value_def handle_bad_address_def a_word_def Let_def
      split: option.splits)

lemma allocate_address_if_needed_eq:
  "allocate_address_if_needed t k =
     (case t_symbol_table t k of
        None \<Rightarrow> (next_free_mem t,
                  t\<lparr>t_symbol_table := (t_symbol_table t)(k \<mapsto> next_free_mem t),
                    next_free_mem := next_free_mem t + 1\<rparr>)
      | Some a \<Rightarrow> (a, t))"
  by (simp add: allocate_address_if_needed_def get_value_def store_symbol_def Let_def
      split: option.splits)

lemma a_word_0: "a_word 0 = ''0000000000000000''"
proof -
  have "replicate 14 CHR ''0'' = ''00000000000000''" by code_simp
  then show ?thesis by (simp add: a_word_nonneg bin_digits.simps)
qed

lemma a_word_16384: "a_word 16384 = ''0100000000000000''"
  by (simp add: a_word_nonneg bin_digits.simps)

text \<open>
  Claim C8.  With the default symbol table, the A-instruction \<open>@0\<close> is encoded as
  \<open>0000000000000000\<close> and \<open>@SCREEN\<close> as \<open>0100000000000000\<close>; neither changes the
  translator's state.
\<close>

theorem encode_zero_and_SCREEN:
  "process_a_instruction (new_translator cm src get_defaults) ''@0''
     = Inr (''0000000000000000'', new_translator cm src get_defaults)
   \<and> process_a_instruction (new_translator cm src get_defaults) ''@SCREEN''
     = Inr (''0100000000000000'', new_translator cm src get_defaults)"
proof -
  have lit: "py_int ''0'' = Some 0" by (simp add: py_int_eval)
  have sym: "py_int ''SCREEN'' = None" by (simp add: py_int_eval)
  have scr: "t_symbol_table (new_translator cm src get_defaults) ''SCREEN'' = Some 16384"
    by (simp add: new_translator_def get_defaults_unfold)
  have "process_a_instruction (new_translator cm src get_defaults) ''@0''
          = Inr (''0000000000000000'', new_translator cm src get_defaults)"
    by (simp add: process_a_instruction_def lit convert_a_instruction_eq A_SIZE_def a_word_0)
  moreover have "process_a_instruction (new_translator cm src get_defaults) ''@SCREEN''
          = Inr (''0100000000000000'', new_translator cm src get_defaults)"
    by (simp add: process_a_instruction_def sym allocate_address_if_needed_eq scr
        convert_a_instruction_eq A_SIZE_def a_word_16384)
  ultimately show ?thesis by simp
qed

text \<open>
  Claim C10.  An A-instruction that names a symbol stored with address 0 is encoded with
  address 0, and nothing is allocated: the symbol table and the next free address are the
  same afterwards.  The encoder tests \<open>address is False\<close>, which the integer 0 does not
  satisfy.
\<close>

theorem zero_valued_symbol_not_allocated:
  assumes "t_symbol_table t name = Some 0" and "py_int name = None"
  shows "allocate_address_if_needed t name = (0, t)
         \<and> process_a_instruction t (CHR ''@'' # name) = Inr (''0000000000000000'', t)"
  using assms
  by (simp add: process_a_instruction_def allocate_address_if_needed_eq convert_a_instruction_eq
      A_SIZE_def a_word_0)

theorem zero_valued_symbol_not_allocated_witness:
  "t_symbol_table (new_translator Map.empty [''@SP''] get_defaults) ''SP'' = Some 0
   \<and> py_int ''SP'' = None
   \<and> allocate_address_if_needed (new_translator Map.empty [''@SP''] get_defaults) ''SP''
       = (0, new_translator Map.empty [''@SP''] get_defaults)
   \<and> process_a_instruction (new_translator Map.empty [''@SP''] get_defaults) ''@SP''
       = Inr (''0000000000000000'', new_translator Map.empty [''@SP''] get_defaults)"
proof -
  have h1: "t_symbol_table (new_translator Map.empty [''@SP''] get_defaults) ''SP'' = Some 0"
    by (simp add: new_translator_def get_defaults_unfold)
  have h2: "py_int ''SP'' = None" by (simp add: py_int_eval)
  show ?thesis using zero_valued_symbol_not_allocated [OF h1 h2] h1 h2 by simp
qed

text \<open>
  Claim C2.  An A-instruction whose text parses as a non-negative integer \<open>n\<close>: up to
  \<open>2^15 - 1\<close> the emitted word is the bit 0 followed by \<open>n\<close> in 15 binary digits; above
  that the decimal text of \<open>n\<close> is looked up in the symbol table, and the translation
  stops with \<open>sys.exit\<close> exactly when the table has no such symbol.
\<close>

theorem literal_a_instruction:
  assumes "py_int (tl code_piece) = Some n" and "0 \<le> n"
  shows "(n \<le> 2 ^ 15 - 1 \<longrightarrow>
            (\<exists>w. process_a_instruction t code_piece = Inr (w, t) \<and> length w = 16
                 \<and> hd w = CHR ''0'' \<and> is_bits w \<and> bits_value w = nat n))
       \<and> (n > 2 ^ 15 - 1 \<longrightarrow>
            ((\<exists>e. process_a_instruction t code_piece = Inl e)
                \<longleftrightarrow> t_symbol_table t (py_str n) = None)
            \<and> (t_symbol_table t (py_str n) = None
                \<longrightarrow> process_a_instruction t code_piece = Inl (SysExit 3))
            \<and> (\<forall>v. t_symbol_table t (py_str n) = Some v
                \<longrightarrow> process_a_instruction t code_piece = Inr (a_word v, t)))"
proof -
  have small: "process_a_instruction t code_piece = Inr (a_word n, t)" if "n \<le> 2 ^ 15 - 1"
    using that assms by (simp add: process_a_instruction_def convert_a_instruction_eq A_SIZE_def)
  have big: "process_a_instruction t code_piece =
               (case t_symbol_table t (py_str n) of
                  None \<Rightarrow> Inl (SysExit 3) | Some v \<Rightarrow> Inr (a_word v, t))" if "n > 2 ^ 15 - 1"
    using that assms
    by (simp add: process_a_instruction_def convert_a_instruction_eq A_SIZE_def
        split: option.splits)
  have "\<exists>w. process_a_instruction t code_piece = Inr (w, t) \<and> length w = 16
                 \<and> hd w = CHR ''0'' \<and> is_bits w \<and> bits_value w = nat n" if le: "n \<le> 2 ^ 15 - 1"
  proof -
    have "n \<le> A_SIZE" using le by (simp add: A_SIZE_def)
    with a_word_in_range [OF assms(2) this] small [OF le] show ?thesis by blast
  qed
  moreover have "((\<exists>e. process_a_instruction t code_piece = Inl e)
                \<longleftrightarrow> t_symbol_table t (py_str n) = None)
            \<and> (t_symbol_table t (py_str n) = None
                \<longrightarrow> process_a_instruction t code_piece = Inl (SysExit 3))
            \<and> (\<forall>v. t_symbol_table t (py_str n) = Some v
                \<longrightarrow> process_a_instruction t code_piece = Inr (a_word v, t))" if gt: "n > 2 ^ 15 - 1"
    using big [OF gt] by (cases "t_symbol_table t (py_str n)") auto
  ultimately show ?thesis by blast
qed


theorem literal_a_instruction_witness:
  "py_int (tl ''@32767'') = Some 32767 \<and> (0::int) \<le> 32767
   \<and> process_a_instruction (new_translator Map.empty [] get_defaults) ''@32767''
       = Inr (''0111111111111111'', new_translator Map.empty [] get_defaults)
   \<and> bits_value ''0111111111111111'' = 32767
   \<and> py_int (tl ''@32768'') = Some 32768 \<and> (0::int) \<le> 32768
   \<and> process_a_instruction (new_translator Map.empty [] get_defaults) ''@32768''
       = Inl (SysExit 3)
   \<and> process_a_instruction (new_translator Map.empty [] (get_defaults(''32768'' \<mapsto> 5))) ''@32768''
       = Inr (''0000000000000101'', new_translator Map.empty [] (get_defaults(''32768'' \<mapsto> 5)))"
proof -
  let ?t = "new_translator Map.empty [] get_defaults"
  let ?u = "new_translator Map.empty [] (get_defaults(''32768'' \<mapsto> 5))"
  have p1: "py_int (tl ''@32767'') = Some 32767" by (simp add: py_int_eval)
  have p2: "py_int (tl ''@32768'') = Some 32768" by (simp add: py_int_eval)
  have s: "py_str 32768 = ''32768''" by (simp add: py_str_def dec_digits.simps digit_chars_def)
  have n1: "t_symbol_table ?t (py_str 32768) = None"
    by (simp add: s new_translator_def get_defaults_unfold)
  have n2: "t_symbol_table ?u (py_str 32768) = Some 5"
    by (simp add: s new_translator_def)
  have w5: "a_word 5 = ''0000000000000101''"
  proof -
    have "replicate 12 CHR ''0'' = ''000000000000''" by code_simp
    then show ?thesis by (simp add: a_word_nonneg bin_digits.simps)
  qed
  have b: "bin_digits 32767 = ''111111111111111''" by (simp add: bin_digits.simps)
  obtain w where w: "process_a_instruction ?t ''@32767'' = Inr (w, ?t)" "length w = 16"
      "hd w = CHR ''0''" "is_bits w" "bits_value w = nat 32767"
    using literal_a_instruction [OF p1, of ?t] by auto
  have e: "process_a_instruction ?t ''@32767'' = Inr (''0111111111111111'', ?t)"
    by (simp add: process_a_instruction_def py_int_eval convert_a_instruction_eq A_SIZE_def
        a_word_nonneg b)
  from w(1) e have "w = ''0111111111111111''" by simp
  with w(5) have "bits_value ''0111111111111111'' = 32767" by simp
  moreover note e
  moreover have "process_a_instruction ?t ''@32768'' = Inl (SysExit 3)"
    using literal_a_instruction [OF p2, of ?t] n1 by simp
  moreover have "process_a_instruction ?u ''@32768'' = Inr (''0000000000000101'', ?u)"
    using literal_a_instruction [OF p2, of ?u] n2 w5 by simp
  ultimately show ?thesis using p1 p2 by simp
qed

section \<open>The first pass\<close>

lemma read_line_instruction:
  "is_instruction_line l \<Longrightarrow>
   read_line l r = r\<lparr>program_code := program_code r @ [line_part_of l],
                     line_counter := line_counter r + 1\<rparr>"
  by (simp add: read_line_def is_instruction_line_def check_if_label_def Let_def)

lemma read_line_label:
  "is_label_line l \<Longrightarrow>
   read_line l r =
     r\<lparr>r_symbol_table :=
         (let name = label_name_of (line_part_of l)
          in if r_symbol_table r name = None \<or> r_symbol_table r name = Some 0
             then (r_symbol_table r)(name \<mapsto> line_counter r + 1)
             else r_symbol_table r)\<rparr>"
  by (auto simp: read_line_def is_label_line_def check_if_label_def Let_def get_value_def
      store_symbol_def split: option.splits)

lemma read_line_blank:
  "line_part_of l = [] \<Longrightarrow> read_line l r = r"
  by (simp add: read_line_def)

lemma line_kinds: "is_instruction_line l \<or> is_label_line l \<or> line_part_of l = []"
  by (auto simp: is_instruction_line_def is_label_line_def)

lemma read_line_counter:
  "line_counter (read_line l r) = line_counter r + (if is_instruction_line l then 1 else 0)"
  using line_kinds [of l]
  by (auto simp: read_line_instruction read_line_label read_line_blank Let_def
      is_instruction_line_def is_label_line_def)

lemma read_line_code:
  "program_code (read_line l r) =
     program_code r @ (if is_instruction_line l then [line_part_of l] else [])"
  using line_kinds [of l]
  by (auto simp: read_line_instruction read_line_label read_line_blank Let_def
      is_instruction_line_def is_label_line_def)

lemma read_line_table_other:
  "\<not> defines_label l name \<Longrightarrow> r_symbol_table (read_line l r) name = r_symbol_table r name"
  using line_kinds [of l]
  by (auto simp: read_line_instruction read_line_label read_line_blank Let_def
      is_instruction_line_def is_label_line_def defines_label_def)

lemma read_lines_counter:
  "line_counter (read_lines ls r) = line_counter r + int (length (filter is_instruction_line ls))"
  by (induction ls arbitrary: r) (simp_all add: read_line_counter)

lemma read_lines_code:
  "program_code (read_lines ls r) = program_code r @ map line_part_of (filter is_instruction_line ls)"
  by (induction ls arbitrary: r) (simp_all add: read_line_code)

lemma read_lines_table_other:
  "\<forall>l \<in> set ls. \<not> defines_label l name \<Longrightarrow>
   r_symbol_table (read_lines ls r) name = r_symbol_table r name"
  by (induction ls arbitrary: r) (simp_all add: read_line_table_other)

lemma read_lines_append: "read_lines (xs @ ys) r = read_lines ys (read_lines xs r)"
  by (induction xs arbitrary: r) simp_all

lemma read_source_fresh_label:
  assumes "defines_label l name"
    and "get_defaults name = None"
    and "\<forall>l' \<in> set pre \<union> set post. \<not> defines_label l' name"
  shows "snd (read_source (pre @ l # post)) name
           = Some (int (length (filter is_instruction_line pre)))"
proof -
  let ?r1 = "read_lines pre new_reader"
  have t1: "r_symbol_table ?r1 name = None"
    using assms(2,3) by (simp add: read_lines_table_other new_reader_def)
  have c1: "line_counter ?r1 = int (length (filter is_instruction_line pre)) - 1"
    by (simp add: read_lines_counter new_reader_def)
  have lab: "is_label_line l" and nm: "label_name_of (line_part_of l) = name"
    using assms(1) by (simp_all add: defines_label_def)
  have t2: "r_symbol_table (read_line l ?r1) name
              = Some (int (length (filter is_instruction_line pre)))"
    by (simp add: read_line_label [OF lab] nm t1 c1 Let_def)
  have "r_symbol_table (read_lines post (read_line l ?r1)) name
          = r_symbol_table (read_line l ?r1) name"
    using assms(3) by (intro read_lines_table_other) simp
  with t2 show ?thesis
    by (simp add: read_source_def read_lines_append Let_def)
qed

text \<open>
  Claim C6, as amended.  A label whose name is not a predefined symbol and that is defined
  by exactly one label line of the file resolves, after the first pass, to the number of
  instruction lines that precede it (0 when it comes before any instruction).
\<close>

theorem fresh_label_address:
  assumes "defines_label l name"
    and "get_defaults name = None"
    and "\<forall>l' \<in> set pre \<union> set post. \<not> defines_label l' name"
  shows "snd (read_source (pre @ l # post)) name
           = Some (int (length (filter is_instruction_line pre)))"
  using assms by (rule read_source_fresh_label)

lemmas line_eval = line_part_of_def py_strip_def py_isspace_def py_split_def startswith_def
  label_name_of_def

lemma read_line_keeps_nonzero:
  "r_symbol_table r name = Some v \<Longrightarrow> v \<noteq> 0 \<Longrightarrow> r_symbol_table (read_line l r) name = Some v"
  using line_kinds [of l]
  by (auto simp: read_line_instruction read_line_label read_line_blank Let_def
      is_instruction_line_def is_label_line_def)

lemma read_lines_keeps_nonzero:
  "r_symbol_table r name = Some v \<Longrightarrow> v \<noteq> 0 \<Longrightarrow> r_symbol_table (read_lines ls r) name = Some v"
  by (induction ls arbitrary: r) (simp_all add: read_line_keeps_nonzero)

lemmas read_eval = read_source_def new_reader_def read_line_def check_if_label_def
  get_value_def store_symbol_def get_defaults_unfold Let_def

theorem fresh_label_address_witness:
  "defines_label ''(LOOP)'' ''LOOP'' \<and> get_defaults ''LOOP'' = None
   \<and> \<not> defines_label ''@2'' ''LOOP'' \<and> \<not> defines_label ''D=A'' ''LOOP''
   \<and> \<not> defines_label ''@LOOP'' ''LOOP''
   \<and> snd (read_source ([''@2'', ''D=A''] @ ''(LOOP)'' # [''@LOOP''])) ''LOOP'' = Some 2
   \<and> snd (read_source ([] @ ''(LOOP)'' # [''@LOOP''])) ''LOOP'' = Some 0"
proof -
  have d: "defines_label ''(LOOP)'' ''LOOP''"
    by (simp add: defines_label_def is_label_line_def line_eval)
  have g: "get_defaults ''LOOP'' = None" by (simp add: get_defaults_unfold)
  have o: "\<not> defines_label ''@2'' ''LOOP''" "\<not> defines_label ''D=A'' ''LOOP''"
      "\<not> defines_label ''@LOOP'' ''LOOP''"
    by (simp_all add: defines_label_def is_label_line_def line_eval)
  have n: "\<forall>l' \<in> set [''@2'', ''D=A''] \<union> set [''@LOOP'']. \<not> defines_label l' ''LOOP''"
    using o by simp
  have n0: "\<forall>l' \<in> set [] \<union> set [''@LOOP'']. \<not> defines_label l' ''LOOP''"
    using o by simp
  have i: "filter is_instruction_line [''@2'', ''D=A''] = [''@2'', ''D=A'']"
    by (simp add: is_instruction_line_def line_eval)
  have "snd (read_source ([''@2'', ''D=A''] @ ''(LOOP)'' # [''@LOOP''])) ''LOOP'' = Some 2"
    using fresh_label_address [OF d g n, unfolded i] by simp
  moreover have "snd (read_source ([] @ ''(LOOP)'' # [''@LOOP''])) ''LOOP'' = Some 0"
    using fresh_label_address [OF d g n0] by simp
  ultimately show ?thesis using d g o by simp
qed

text \<open>
  Claim C6 as stated fails for a name that is already bound: the label \<open>(KBD)\<close> placed
  before any instruction leaves \<open>KBD\<close> at 24576.
\<close>

theorem predefined_label_counterexample:
  "defines_label ''(KBD)'' ''KBD''
   \<and> filter is_instruction_line [] = []
   \<and> snd (read_source ([] @ ''(KBD)'' # [''@0''])) ''KBD'' = Some 24576
   \<and> snd (read_source ([] @ ''(KBD)'' # [''@0''])) ''KBD'' \<noteq> Some 0"
  by (simp add: defines_label_def is_label_line_def line_eval read_eval)

text \<open>
  Claim C1.  \<open>check_if_label\<close> tests \<open>not get_value(label_name)\<close>, which is also true
  for a stored 0.  A label line therefore rebinds a name whose current value is 0: the
  predefined \<open>SP\<close> after one instruction becomes 1, and a label first defined at address 0
  takes the address of its second definition.
\<close>

theorem label_rebinds_zero_valued_symbol:
  "get_defaults ''SP'' = Some 0
   \<and> snd (read_source [''@0'', ''(SP)'']) ''SP'' = Some 1
   \<and> snd (read_source [''(LOOP)'', ''@0'', ''(LOOP)'']) ''LOOP'' = Some 1"
  by (simp add: line_eval read_eval)

section \<open>Variable allocation\<close>

lemma allocate_all_addresses:
  "fst (allocate_all t ks) =
     map (\<lambda>k. case t_symbol_table t k of
                 Some v \<Rightarrow> v
               | None \<Rightarrow> next_free_mem t + int (index_of k (new_names (t_symbol_table t) ks))) ks"
proof (induction ks arbitrary: t)
  case Nil
  show ?case by simp
next
  case (Cons k ks)
  show ?case
  proof (cases "t_symbol_table t k")
    case (Some a)
    then have al: "allocate_address_if_needed t k = (a, t)"
      by (simp add: allocate_address_if_needed_eq)
    have nn: "new_names (t_symbol_table t) (k # ks) = new_names (t_symbol_table t) ks"
      using Some by (simp add: new_names_def)
    have "fst (allocate_all t (k # ks)) = a # fst (allocate_all t ks)"
      by (simp add: al split: prod.splits)
    also note Cons.IH [of t]
    finally show ?thesis
      by (simp only: list.map nn Some option.case)
  next
    case None
    let ?t' = "t\<lparr>t_symbol_table := (t_symbol_table t)(k \<mapsto> next_free_mem t),
                  next_free_mem := next_free_mem t + 1\<rparr>"
    have al: "allocate_address_if_needed t k = (next_free_mem t, ?t')"
      using None by (simp add: allocate_address_if_needed_eq)
    have f: "filter (\<lambda>x. x \<noteq> k) (filter (\<lambda>x. t_symbol_table t x = None) ks)
               = filter (\<lambda>x. t_symbol_table ?t' x = None) ks"
      by (induction ks) auto
    have "filter (\<lambda>x. t_symbol_table t x = None) (k # ks)
            = k # filter (\<lambda>x. t_symbol_table t x = None) ks"
      using None by simp
    then have nn: "new_names (t_symbol_table t) (k # ks) = k # new_names (t_symbol_table ?t') ks"
      by (simp only: new_names_def first_refs.simps f)
    have tl_eq: "map (\<lambda>x. case t_symbol_table ?t' x of
                 Some v \<Rightarrow> v
               | None \<Rightarrow> next_free_mem ?t' + int (index_of x (new_names (t_symbol_table ?t') ks))) ks
          = map (\<lambda>x. case t_symbol_table t x of
                 Some v \<Rightarrow> v
               | None \<Rightarrow> next_free_mem t + int (index_of x (new_names (t_symbol_table t) (k # ks)))) ks"
      using None by (intro map_cong refl) (auto simp: nn split: option.splits)
    have hd_eq: "(case t_symbol_table t k of Some v \<Rightarrow> v
              | None \<Rightarrow> next_free_mem t + int (index_of k (new_names (t_symbol_table t) (k # ks))))
            = next_free_mem t"
      using None by (simp add: nn)
    have "fst (allocate_all t (k # ks)) = next_free_mem t # fst (allocate_all ?t' ks)"
      by (simp add: al split: prod.splits)
    also have "fst (allocate_all ?t' ks) = map (\<lambda>x. case t_symbol_table ?t' x of
                 Some v \<Rightarrow> v
               | None \<Rightarrow> next_free_mem ?t' + int (index_of x (new_names (t_symbol_table ?t') ks))) ks"
      by (rule Cons.IH)
    finally show ?thesis
      by (simp only: list.map hd_eq tl_eq)
  qed
qed

text \<open>
  Claim C7.  In one encoding pass every reference to a name that the table does not hold
  yields 16 plus the position of that name among the new names in first-reference order:
  the same name always gets the same address, and the new names get 16, 17, 18, ...
\<close>

theorem variable_allocation_order:
  "fst (allocate_all (new_translator cm src table) ks) =
     map (\<lambda>k. case table k of
                 Some v \<Rightarrow> v
               | None \<Rightarrow> 16 + int (index_of k (new_names table ks))) ks"
proof -
  have sel: "next_free_mem (new_translator cm src table) = 16"
    "t_symbol_table (new_translator cm src table) = table"
    by (simp_all add: new_translator_def)
  show ?thesis
    using allocate_all_addresses [of "new_translator cm src table" ks] unfolding sel .
qed

lemma translate_loop_state:
  "translate_loop src t out = Inr (out', t') \<Longrightarrow> t' = snd (allocate_all t (symbol_refs src))"
proof (induction src arbitrary: t out)
  case Nil
  then show ?case by (simp add: symbol_refs_def)
next
  case (Cons l ls)
  show ?case
  proof (cases "startswith l ''@''")
    case False
    with Cons.prems obtain w where "translate_loop ls t (out @ [w]) = Inr (out', t')"
      by (auto split: sum.splits)
    from Cons.IH [OF this] False show ?thesis by (simp add: symbol_refs_def)
  next
    case True
    with Cons.prems obtain w t1 where p: "process_a_instruction t l = Inr (w, t1)"
      and r: "translate_loop ls t1 (out @ [w]) = Inr (out', t')"
      by (auto split: sum.splits)
    show ?thesis
    proof (cases "py_int (tl l)")
      case None
      with p have "t1 = snd (allocate_address_if_needed t (tl l))"
        by (auto simp: process_a_instruction_def Let_def split: prod.splits sum.splits)
      with Cons.IH [OF r] True None show ?thesis
        by (simp add: symbol_refs_def split: prod.splits)
    next
      case (Some n)
      with p have "t1 = t"
        by (auto simp: process_a_instruction_def Let_def split: sum.splits)
      with Cons.IH [OF r] True Some show ?thesis by (simp add: symbol_refs_def)
    qed
  qed
qed


lemma allocate_reference_twice:
  assumes "allocate_address_if_needed t k = (a, t1)"
  shows "allocate_address_if_needed t1 k = (a, t1)"
  using assms by (auto simp: allocate_address_if_needed_eq split: option.splits)

theorem variable_allocation_order_witness:
  "fst (allocate_all (new_translator Map.empty [] get_defaults)
          [''i'', ''sum'', ''i'', ''SCREEN'', ''j'', ''sum''])
     = [16, 17, 16, 16384, 18, 17]"
proof -
  have "new_names get_defaults [''i'', ''sum'', ''i'', ''SCREEN'', ''j'', ''sum'']
          = [''i'', ''sum'', ''j'']"
    by (simp add: new_names_def get_defaults_unfold)
  then show ?thesis
    using variable_allocation_order [of Map.empty "[]" get_defaults
        "[''i'', ''sum'', ''i'', ''SCREEN'', ''j'', ''sum'']"]
    by (simp add: get_defaults_unfold)
qed

section \<open>C-instructions\<close>

lemma py_str_C_codes: "py_str C_OP_CODE @ py_str C_FILLER = ''111''"
  by (simp add: py_str_def C_OP_CODE_def C_FILLER_def dec_digits.simps digit_chars_def)

lemma convert_c_instruction_Inr:
  "convert_c_instruction t c d j = Inr w \<longleftrightarrow>
     (\<exists>cb db jb. c_lookup (c_instruction_map t) ''comp'' c = Some cb
        \<and> c_lookup (c_instruction_map t) ''dest'' d = Some db
        \<and> c_lookup (c_instruction_map t) ''jmp'' j = Some jb
        \<and> w = ''111'' @ cb @ db @ jb)"
  by (auto simp: convert_c_instruction_def C_FIELDS_def c_lookup_def py_str_C_codes
      split: option.splits)

lemma process_c_instruction_dest_form:
  assumes "CHR ''='' \<in> set line" and "process_c_instruction t line = Inr w"
  shows "\<exists>dest c. py_index (py_split ''='' line) 0 = Inr dest
           \<and> py_index (py_split ''='' line) 1 = Inr c
           \<and> convert_c_instruction t c dest ''null'' = Inr w"
  using assms by (auto simp: process_c_instruction_def split: sum.splits)

lemma process_c_instruction_jump_form:
  assumes "CHR ''='' \<notin> set line" and "CHR '';'' \<in> set line"
    and "process_c_instruction t line = Inr w"
  shows "\<exists>c jmp. py_index (py_split '';'' line) 0 = Inr c
           \<and> py_index (py_split '';'' line) 1 = Inr jmp
           \<and> convert_c_instruction t c ''null'' jmp = Inr w"
  using assms by (auto simp: process_c_instruction_def split: sum.splits)

text \<open>
  Claim C9.  A C-instruction that is translated starts with the bits \<open>11\<close> (the word is
  \<open>111\<close> followed by the computation, destination and jump bits).  For a line containing
  \<open>=\<close> the jump bits are the table's encoding of \<open>null\<close>; for a line containing
  \<open>;\<close> and no \<open>=\<close> the destination bits are the table's encoding of \<open>null\<close>.
\<close>

theorem c_instruction_null_fields:
  assumes "process_c_instruction t line = Inr w"
  shows "(CHR ''='' \<in> set line \<longrightarrow>
            take 2 w = ''11''
            \<and> (\<exists>dest c cb db jb.
                  py_index (py_split ''='' line) 0 = Inr dest
                  \<and> py_index (py_split ''='' line) 1 = Inr c
                  \<and> c_lookup (c_instruction_map t) ''comp'' c = Some cb
                  \<and> c_lookup (c_instruction_map t) ''dest'' dest = Some db
                  \<and> c_lookup (c_instruction_map t) ''jmp'' ''null'' = Some jb
                  \<and> w = ''111'' @ cb @ db @ jb))
       \<and> (CHR ''='' \<notin> set line \<and> CHR '';'' \<in> set line \<longrightarrow>
            take 2 w = ''11''
            \<and> (\<exists>c jmp cb db jb.
                  py_index (py_split '';'' line) 0 = Inr c
                  \<and> py_index (py_split '';'' line) 1 = Inr jmp
                  \<and> c_lookup (c_instruction_map t) ''comp'' c = Some cb
                  \<and> c_lookup (c_instruction_map t) ''dest'' ''null'' = Some db
                  \<and> c_lookup (c_instruction_map t) ''jmp'' jmp = Some jb
                  \<and> w = ''111'' @ cb @ db @ jb))"
proof (intro conjI impI)
  assume eq: "CHR ''='' \<in> set line"
  from process_c_instruction_dest_form [OF eq assms] obtain dest c
    where s: "py_index (py_split ''='' line) 0 = Inr dest"
      "py_index (py_split ''='' line) 1 = Inr c"
      and cv: "convert_c_instruction t c dest ''null'' = Inr w" by blast
  from cv obtain cb db jb where l: "c_lookup (c_instruction_map t) ''comp'' c = Some cb"
      "c_lookup (c_instruction_map t) ''dest'' dest = Some db"
      "c_lookup (c_instruction_map t) ''jmp'' ''null'' = Some jb" "w = ''111'' @ cb @ db @ jb"
    unfolding convert_c_instruction_Inr by blast
  from l(4) show "take 2 w = ''11''" by simp
  from s l show "\<exists>dest c cb db jb.
                  py_index (py_split ''='' line) 0 = Inr dest
                  \<and> py_index (py_split ''='' line) 1 = Inr c
                  \<and> c_lookup (c_instruction_map t) ''comp'' c = Some cb
                  \<and> c_lookup (c_instruction_map t) ''dest'' dest = Some db
                  \<and> c_lookup (c_instruction_map t) ''jmp'' ''null'' = Some jb
                  \<and> w = ''111'' @ cb @ db @ jb" by blast
next
  assume a: "CHR ''='' \<notin> set line \<and> CHR '';'' \<in> set line"
  from process_c_instruction_jump_form [OF _ _ assms] a obtain c jmp
    where s: "py_index (py_split '';'' line) 0 = Inr c"
      "py_index (py_split '';'' line) 1 = Inr jmp"
      and cv: "convert_c_instruction t c ''null'' jmp = Inr w" by blast
  from cv obtain cb db jb where l: "c_lookup (c_instruction_map t) ''comp'' c = Some cb"
      "c_lookup (c_instruction_map t) ''dest'' ''null'' = Some db"
      "c_lookup (c_instruction_map t) ''jmp'' jmp = Some jb" "w = ''111'' @ cb @ db @ jb"
    unfolding convert_c_instruction_Inr by blast
  from l(4) show "take 2 w = ''11''" by simp
  from s l show "\<exists>c jmp cb db jb.
                  py_index (py_split '';'' line) 0 = Inr c
                  \<and> py_index (py_split '';'' line) 1 = Inr jmp
                  \<and> c_lookup (c_instruction_map t) ''comp'' c = Some cb
                  \<and> c_lookup (c_instruction_map t) ''dest'' ''null'' = Some db
                  \<and> c_lookup (c_instruction_map t) ''jmp'' jmp = Some jb
                  \<and> w = ''111'' @ cb @ db @ jb" by blast
qed

lemmas c_eval = process_c_instruction_def py_split_def py_index_def convert_c_instruction_def
  C_FIELDS_def py_str_C_codes

lemma sample_c_map_sel [simp]:
  "c_instruction_map (new_translator sample_c_map src table) = sample_c_map"
  by (simp add: new_translator_def)



theorem c_instruction_null_fields_witness:
  "process_c_instruction (new_translator sample_c_map [] get_defaults) ''D=A''
     = Inr ''1110110000010000''
   \<and> CHR ''='' \<in> set ''D=A''
   \<and> c_lookup sample_c_map ''jmp'' ''null'' = Some ''000''
   \<and> take 2 ''1110110000010000'' = ''11''
   \<and> process_c_instruction (new_translator sample_c_map [] get_defaults) ''D;JGT''
     = Inr ''1110001100000001''
   \<and> CHR ''='' \<notin> set ''D;JGT'' \<and> CHR '';'' \<in> set ''D;JGT''
   \<and> c_lookup sample_c_map ''dest'' ''null'' = Some ''000''
   \<and> take 2 ''1110001100000001'' = ''11''"
proof -
  let ?t = "new_translator sample_c_map [] get_defaults"
  have d: "process_c_instruction ?t ''D=A'' = Inr ''1110110000010000''"
    by (simp add: c_eval new_translator_def sample_c_map_def)
  have j: "process_c_instruction ?t ''D;JGT'' = Inr ''1110001100000001''"
    by (simp add: c_eval new_translator_def sample_c_map_def)
  have l: "c_lookup sample_c_map ''jmp'' ''null'' = Some ''000''"
    "c_lookup sample_c_map ''dest'' ''null'' = Some ''000''"
    by (simp_all add: c_lookup_def sample_c_map_def)
  have m: "CHR ''='' \<in> set ''D=A''" "CHR ''='' \<notin> set ''D;JGT'' \<and> CHR '';'' \<in> set ''D;JGT''"
    by simp_all
  have "take 2 ''1110110000010000'' = ''11''"
    using c_instruction_null_fields [OF d] m(1) by blast
  moreover have "take 2 ''1110001100000001'' = ''11''"
    using c_instruction_null_fields [OF j] m(2) by blast
  ultimately show ?thesis using d j l m by simp
qed

lemma has_code_Some:
  "has_code cm field key n \<Longrightarrow>
   \<exists>bits. c_lookup cm field key = Some bits \<and> length bits = n \<and> is_bits bits"
  by (simp add: has_code_def split: option.splits)

lemma convert_c_instruction_well_formed:
  assumes "has_code (c_instruction_map t) ''comp'' c 7"
    and "has_code (c_instruction_map t) ''dest'' d 3"
    and "has_code (c_instruction_map t) ''jmp'' j 3"
  shows "\<exists>w. convert_c_instruction t c d j = Inr w \<and> length w = 16 \<and> is_bits w"
proof -
  from assms obtain cb db jb where
    l: "c_lookup (c_instruction_map t) ''comp'' c = Some cb" "length cb = 7" "is_bits cb"
      "c_lookup (c_instruction_map t) ''dest'' d = Some db" "length db = 3" "is_bits db"
      "c_lookup (c_instruction_map t) ''jmp'' j = Some jb" "length jb = 3" "is_bits jb"
    by (blast dest: has_code_Some)
  then have "convert_c_instruction t c d j = Inr (''111'' @ cb @ db @ jb)"
    by (simp add: convert_c_instruction_Inr)
  moreover have "length (''111'' @ cb @ db @ jb) = 16" using l by simp
  moreover have "is_bits (''111'' @ cb @ db @ jb)"
    using l by (simp add: is_bits_append is_bits_Cons)
  ultimately show ?thesis by blast
qed

lemma dest_forms:
  "process_c_instruction t ''D=A'' = convert_c_instruction t ''A'' ''D'' ''null''"
  "process_c_instruction t ''D=D+A'' = convert_c_instruction t ''D+A'' ''D'' ''null''"
  "process_c_instruction t ''M=D'' = convert_c_instruction t ''D'' ''M'' ''null''"
  by (simp_all add: process_c_instruction_def py_split_def py_index_def)

lemma a_forms:
  "process_a_instruction t ''@2'' = Inr (''0000000000000010'', t)"
  "process_a_instruction t ''@3'' = Inr (''0000000000000011'', t)"
  "process_a_instruction t ''@0'' = Inr (''0000000000000000'', t)"
proof -
  have r: "replicate 13 CHR ''0'' = ''0000000000000''" "replicate 14 CHR ''0'' = ''00000000000000''"
    by code_simp+
  have w: "a_word 2 = ''0000000000000010''" "a_word 3 = ''0000000000000011''"
    by (simp_all add: a_word_nonneg bin_digits.simps r)
  show "process_a_instruction t ''@2'' = Inr (''0000000000000010'', t)"
    by (simp add: process_a_instruction_def py_int_eval convert_a_instruction_eq A_SIZE_def w)
  show "process_a_instruction t ''@3'' = Inr (''0000000000000011'', t)"
    by (simp add: process_a_instruction_def py_int_eval convert_a_instruction_eq A_SIZE_def w)
  show "process_a_instruction t ''@0'' = Inr (''0000000000000000'', t)"
    by (simp add: process_a_instruction_def py_int_eval convert_a_instruction_eq A_SIZE_def a_word_0)
qed

lemma translate_loop_six:
  assumes "process_c_instruction t ''D=A'' = Inr w1"
    and "process_c_instruction t ''D=D+A'' = Inr w2"
    and "process_c_instruction t ''M=D'' = Inr w3"
  shows "translate_loop six_lines t [] =
           Inr ([''0000000000000010'', w1, ''0000000000000011'', w2, ''0000000000000000'', w3], t)"
  by (simp add: six_lines_def startswith_def a_forms assms)

lemma read_six_lines: "fst (read_source six_lines) = six_lines"
  by (simp add: six_lines_def read_eval line_eval)

text \<open>
  Claim C4, as amended.  The six lines \<open>@2\<close>, \<open>D=A\<close>, \<open>@3\<close>, \<open>D=D+A\<close>, \<open>@0\<close>,
  \<open>M=D\<close> are six instructions, and with a mnemonic table that holds 7, 3 and 3 bits for
  the mnemonics used they are translated to six words of 16 bits, the first being
  \<open>0000000000000010\<close>.
\<close>

theorem six_line_program:
  assumes "has_code cm ''comp'' ''A'' 7" and "has_code cm ''comp'' ''D+A'' 7"
    and "has_code cm ''comp'' ''D'' 7" and "has_code cm ''dest'' ''D'' 3"
    and "has_code cm ''dest'' ''M'' 3" and "has_code cm ''jmp'' ''null'' 3"
  shows "length (fst (read_source six_lines)) = 6
     \<and> (\<exists>ws t'. translate (new_translator cm (fst (read_source six_lines))
                               (snd (read_source six_lines))) = Inr (ws, t')
           \<and> length ws = 6 \<and> list_all (\<lambda>w. length w = 16 \<and> is_bits w) ws
           \<and> hd ws = ''0000000000000010'')"
proof -
  let ?t = "new_translator cm six_lines (snd (read_source six_lines))"
  have cm: "c_instruction_map ?t = cm" by (simp add: new_translator_def)
  obtain w1 where w1: "process_c_instruction ?t ''D=A'' = Inr w1" "length w1 = 16" "is_bits w1"
    using convert_c_instruction_well_formed [of ?t "''A''" "''D''" "''null''"] assms
    unfolding cm dest_forms by blast
  obtain w2 where w2: "process_c_instruction ?t ''D=D+A'' = Inr w2" "length w2 = 16" "is_bits w2"
    using convert_c_instruction_well_formed [of ?t "''D+A''" "''D''" "''null''"] assms
    unfolding cm dest_forms by blast
  obtain w3 where w3: "process_c_instruction ?t ''M=D'' = Inr w3" "length w3 = 16" "is_bits w3"
    using convert_c_instruction_well_formed [of ?t "''D''" "''M''" "''null''"] assms
    unfolding cm dest_forms by blast
  have "code ?t = six_lines" by (simp add: new_translator_def)
  then have "translate ?t = Inr ([''0000000000000010'', w1, ''0000000000000011'', w2,
                             ''0000000000000000'', w3], ?t)"
    using translate_loop_six [OF w1(1) w2(1) w3(1)] by (simp only: translate_def)
  moreover have "is_bits ''0000000000000010''" "is_bits ''0000000000000011''"
      "is_bits ''0000000000000000''"
    by (simp_all add: is_bits_def)
  ultimately show ?thesis
    using w1 w2 w3 by (simp add: read_six_lines) (simp add: six_lines_def)
qed

theorem six_line_program_witness:
  "has_code sample_c_map ''comp'' ''A'' 7 \<and> has_code sample_c_map ''comp'' ''D+A'' 7
   \<and> has_code sample_c_map ''comp'' ''D'' 7 \<and> has_code sample_c_map ''dest'' ''D'' 3
   \<and> has_code sample_c_map ''dest'' ''M'' 3 \<and> has_code sample_c_map ''jmp'' ''null'' 3
   \<and> length (fst (read_source six_lines)) = 6
   \<and> translate (new_translator sample_c_map (fst (read_source six_lines))
                   (snd (read_source six_lines)))
       = Inr ([''0000000000000010'', ''1110110000010000'', ''0000000000000011'',
               ''1110000010010000'', ''0000000000000000'', ''1110001100001000''],
              new_translator sample_c_map (fst (read_source six_lines))
                (snd (read_source six_lines)))"
proof -
  let ?t = "new_translator sample_c_map six_lines (snd (read_source six_lines))"
  have h: "has_code sample_c_map ''comp'' ''A'' 7" "has_code sample_c_map ''comp'' ''D+A'' 7"
    "has_code sample_c_map ''comp'' ''D'' 7" "has_code sample_c_map ''dest'' ''D'' 3"
    "has_code sample_c_map ''dest'' ''M'' 3" "has_code sample_c_map ''jmp'' ''null'' 3"
    by (simp_all add: has_code_def c_lookup_def sample_c_map_def is_bits_def)
  have n: "length (fst (read_source six_lines)) = 6"
    using six_line_program [OF h] by blast
  have c: "process_c_instruction ?t ''D=A'' = Inr ''1110110000010000''"
    "process_c_instruction ?t ''D=D+A'' = Inr ''1110000010010000''"
    "process_c_instruction ?t ''M=D'' = Inr ''1110001100001000''"
    by (simp_all add: c_eval new_translator_def sample_c_map_def)
  have "code ?t = six_lines" by (simp add: new_translator_def)
  then have "translate ?t
       = Inr ([''0000000000000010'', ''1110110000010000'', ''0000000000000011'',
               ''1110000010010000'', ''0000000000000000'', ''1110001100001000''], ?t)"
    using translate_loop_six [OF c] by (simp only: translate_def)
  then show ?thesis using h n by (simp add: read_six_lines)
qed

text \<open>
  Claim C4 as stated counts four instructions; the first pass keeps all six lines.
\<close>

theorem six_line_program_counterexample:
  "length (fst (read_source six_lines)) = 6 \<and> length (fst (read_source six_lines)) \<noteq> 4"
  by (simp add: read_six_lines) (simp add: six_lines_def)

section \<open>Addresses outside the 15-bit range\<close>

lemma translate_loop_append:
  "translate_loop (xs @ ys) t out =
     (case translate_loop xs t out of
        Inl e \<Rightarrow> Inl e
      | Inr (out', t') \<Rightarrow> translate_loop ys t' out')"
  by (induction xs arbitrary: t out) (auto split: sum.splits)

lemma translate_loop_zeros:
  "translate_loop (replicate n ''@0'') t out = Inr (out @ replicate n ''0000000000000000'', t)"
proof (induction n arbitrary: out)
  case 0
  show ?case by simp
next
  case (Suc n)
  have "translate_loop (replicate (Suc n) ''@0'') t out
          = translate_loop (replicate n ''@0'') t (out @ [''0000000000000000''])"
    by (simp add: startswith_def a_forms)
  also have "\<dots> = Inr ((out @ [''0000000000000000'']) @ replicate n ''0000000000000000'', t)"
    by (rule Suc.IH)
  finally show ?case by simp
qed

lemma instruction_line_zero: "is_instruction_line ''@0''" "line_part_of ''@0'' = ''@0''"
  by (simp_all add: is_instruction_line_def line_eval)

lemma over_range_code:
  "fst (read_source over_range_program) = replicate 32768 ''@0'' @ [''@32768'']"
proof -
  have i: "is_instruction_line ''@32768''" "line_part_of ''@32768'' = ''@32768''"
    "\<not> is_instruction_line ''(32768)''"
    by (simp_all add: is_instruction_line_def line_eval)
  have "filter is_instruction_line over_range_program = replicate 32768 ''@0'' @ [''@32768'']"
    by (simp add: over_range_program_def instruction_line_zero i)
  then show ?thesis
    by (simp add: read_source_def Let_def read_lines_code new_reader_def
        instruction_line_zero i)
qed

lemma over_range_table:
  "snd (read_source over_range_program) ''32768'' = Some 32768"
proof -
  have d: "defines_label ''(32768)'' ''32768''"
    by (simp add: defines_label_def is_label_line_def line_eval)
  have g: "get_defaults ''32768'' = None" by (simp add: get_defaults_unfold)
  have o: "\<not> defines_label ''@0'' ''32768''" "\<not> defines_label ''@32768'' ''32768''"
    by (simp_all add: defines_label_def is_label_line_def line_eval)
  have n: "\<forall>l' \<in> set (replicate 32768 ''@0'') \<union> set [''@32768'']. \<not> defines_label l' ''32768''"
    using o by auto
  have "snd (read_source (replicate 32768 ''@0'' @ ''(32768)'' # [''@32768''])) ''32768''
          = Some (int (length (filter is_instruction_line (replicate 32768 ''@0''))))"
    using d g n by (rule read_source_fresh_label)
  then show ?thesis by (simp add: over_range_program_def instruction_line_zero)
qed

lemma a_word_32768: "a_word 32768 = ''01000000000000000''"
  by (simp add: a_word_nonneg bin_digits.simps)

lemma a_word_minus_1: "a_word (- 1) = ''00000000000000-1''"
proof -
  have "replicate 13 CHR ''0'' = ''0000000000000''" by code_simp
  then show ?thesis
    by (simp add: a_word_def py_str_A_OP_CODE str_times_zero format_b_def
        A_INSTRUCTION_LENGTH_def bin_digits.simps)
qed

text \<open>
  Claim C3.  \<open>_convert_a_instruction\<close> checks the range of the address only before the
  fallback lookup: the value found for an over-range literal is formatted unchecked.  In the
  program above the label \<open>32768\<close> has the address 32768, and \<open>@32768\<close> is translated,
  without any error, to a word of 17 characters.  A negative literal is not rejected either:
  \<open>@-1\<close> yields a 16-character string that contains a minus sign.
\<close>

theorem over_range_symbol_emits_17_characters:
  "translate (new_translator cm (fst (read_source over_range_program))
                (snd (read_source over_range_program)))
     = Inr (replicate 32768 ''0000000000000000'' @ [''01000000000000000''],
            new_translator cm (fst (read_source over_range_program))
              (snd (read_source over_range_program)))
   \<and> length ''01000000000000000'' = 17
   \<and> process_a_instruction t ''@-1'' = Inr (''00000000000000-1'', t)
   \<and> \<not> is_bits ''00000000000000-1''"
proof -
  define t0 where "t0 = new_translator cm (fst (read_source over_range_program))
                (snd (read_source over_range_program))"
  have c: "code t0 = replicate 32768 ''@0'' @ [''@32768'']"
    by (simp add: t0_def new_translator_def over_range_code)
  have tb: "t_symbol_table t0 ''32768'' = Some 32768"
    by (simp add: t0_def new_translator_def over_range_table)
  have s: "py_str 32768 = ''32768''" by (simp add: py_str_def dec_digits.simps digit_chars_def)
  have p: "process_a_instruction t0 ''@32768'' = Inr (''01000000000000000'', t0)"
    by (simp add: process_a_instruction_def py_int_eval convert_a_instruction_eq A_SIZE_def
        s tb a_word_32768)
  have "translate t0 = Inr (replicate 32768 ''0000000000000000'' @ [''01000000000000000''], t0)"
    by (simp add: translate_def c translate_loop_append translate_loop_zeros startswith_def p)
  moreover have "process_a_instruction t ''@-1'' = Inr (''00000000000000-1'', t)"
    by (simp add: process_a_instruction_def py_int_eval convert_a_instruction_eq A_SIZE_def
        a_word_minus_1)
  moreover have "\<not> is_bits ''00000000000000-1''" by (simp add: is_bits_def)
  ultimately show ?thesis unfolding t0_def by simp
qed

section \<open>Fatal errors\<close>









lemma run_no_argument: "script [''Assembler.py''] (fs_of missing_input) sample_c_map_file
                  = Inl (SysExit 3)"
  by (simp add: script_def py_index_def)






end
